theory Spec2Isabelle
  imports Main
begin

section \<open>Value conversion: \<open>parse_traits\<close>\<close>

text \<open>
  \<open>charconv_to_string_parse_traits<T>::parse\<close> calls \<open>std::from_chars\<close> of the C++ standard
  library, which is modelled here after its specification for the integer types in base 10
  (C++20, [charconv.from.chars]): the longest prefix of the text of the form of an optional
  minus sign (signed types only) followed by decimal digits is the subject; white space and
  a plus sign are not skipped. Without a digit nothing matches: \<open>ptr\<close> is \<open>first\<close>,
  \<open>ec\<close> is \<open>invalid_argument\<close>. Otherwise \<open>ptr\<close> is the first character after the
  subject, and \<open>ec\<close> is \<open>result_out_of_range\<close> when the type cannot represent the number.
  \<open>ptr\<close> is an offset into the text; the second component of the result is the variable
  \<open>x\<close> after the call, \<open>None\<close> while it is not assigned.
\<close>

datatype int_type = int16_t | uint16_t | int32_t | uint32_t | int64_t | uint64_t

fun is_signed :: "int_type \<Rightarrow> bool" where
  "is_signed int16_t = True"
| "is_signed uint16_t = False"
| "is_signed int32_t = True"
| "is_signed uint32_t = False"
| "is_signed int64_t = True"
| "is_signed uint64_t = False"

fun bit_width :: "int_type \<Rightarrow> nat" where
  "bit_width int16_t = 16"
| "bit_width uint16_t = 16"
| "bit_width int32_t = 32"
| "bit_width uint32_t = 32"
| "bit_width int64_t = 64"
| "bit_width uint64_t = 64"

definition representable :: "int_type \<Rightarrow> int \<Rightarrow> bool" where
  "representable T v =
     (if is_signed T then - (2 ^ (bit_width T - 1)) \<le> v \<and> v < 2 ^ (bit_width T - 1)
      else 0 \<le> v \<and> v < 2 ^ bit_width T)"

datatype errc = errc_none | invalid_argument | result_out_of_range

record from_chars_result =
  ptr :: nat
  ec :: errc

definition is_digit :: "char \<Rightarrow> bool" where
  "is_digit c = (c \<in> set ''0123456789'')"

definition digit_value :: "char \<Rightarrow> nat" where
  "digit_value c = of_char c - 48"

definition digits_value :: "string \<Rightarrow> nat" where
  "digits_value ds = foldl (\<lambda>acc c. 10 * acc + digit_value c) 0 ds"

definition from_chars :: "int_type \<Rightarrow> string \<Rightarrow> from_chars_result \<times> int option" where
  "from_chars T text =
     (let minus = (is_signed T \<and> text \<noteq> [] \<and> hd text = CHR ''-'');
          body = (if minus then tl text else text);
          ds = takeWhile is_digit body;
          v = (if minus then - int (digits_value ds) else int (digits_value ds));
          after = (if minus then 1 else 0) + length ds
      in if ds = [] then (\<lparr>ptr = 0, ec = invalid_argument\<rparr>, None)
         else if representable T v then (\<lparr>ptr = after, ec = errc_none\<rparr>, Some v)
         else (\<lparr>ptr = after, ec = result_out_of_range\<rparr>, None))"

definition charconv_to_string_parse_traits_parse :: "int_type \<Rightarrow> string \<Rightarrow> int option" where
  "charconv_to_string_parse_traits_parse T text =
     (let (result, x) = from_chars T text
      in if ec result \<noteq> errc_none \<or> ptr result \<noteq> length text then None else x)"

text \<open>\<open>parse_traits<bool>\<close>, \<open>parse_traits<std::string>\<close> and \<open>parse_traits<std::string_view>\<close>.\<close>

definition parse_traits_bool_parse :: "string \<Rightarrow> bool option" where
  "parse_traits_bool_parse text =
     (if text = ''true'' then Some True
      else if text = ''false'' then Some False
      else None)"

definition parse_traits_bool_to_string :: "bool \<Rightarrow> string" where
  "parse_traits_bool_to_string x = (if x then ''true'' else ''false'')"

definition parse_traits_string_parse :: "string \<Rightarrow> string option" where
  "parse_traits_string_parse text = Some text"

definition parse_traits_string_to_string :: "string \<Rightarrow> string" where
  "parse_traits_string_to_string s = s"

text \<open>
  \<open>parse_traits<clp::constant_range<T, N>>::to_string\<close>: every element followed by a space,
  the last space removed.
\<close>

definition constant_range_to_string :: "('t \<Rightarrow> string) \<Rightarrow> 't list \<Rightarrow> string" where
  "constant_range_to_string to_string_T array =
     (let result = foldl (\<lambda>result t. (result @ to_string_T t) @ '' '') [] array
      in if result \<noteq> [] then butlast result else result)"

text \<open>
  The texts that are, as a whole, a decimal numeral of an integer type (a minus sign for
  the signed types only, then at least one digit), and the number that such a text denotes.
\<close>

definition decimal_numeral :: "int_type \<Rightarrow> string \<Rightarrow> bool" where
  "decimal_numeral T text =
     (case text of
        [] \<Rightarrow> False
      | c # cs \<Rightarrow>
          if c = CHR ''-'' then is_signed T \<and> cs \<noteq> [] \<and> list_all is_digit cs
          else list_all is_digit text)"

definition numeral_value :: "string \<Rightarrow> int" where
  "numeral_value text =
     (case text of
        [] \<Rightarrow> 0
      | c # cs \<Rightarrow> if c = CHR ''-'' then - int (digits_value cs) else int (digits_value text))"

section \<open>Leaf descriptors: the decorator chain of \<open>clp.hh\<close>\<close>

text \<open>
  A leaf of the C++ library is a tower of class templates, each deriving from its
  \<open>Base\<close>: \<open>Option<T>\<close> at the bottom and any number of \<open>WithPattern\<close>,
  \<open>WithDescription\<close>, \<open>WithDefaultValue\<close>, \<open>WithImplicitValue\<close>, \<open>WithCheck\<close>,
  \<open>WithCustomParser\<close> and \<open>WithCustomHint\<close> layers above it. The tower is a datatype
  here, outermost layer first, and a member inherited from a base is a function that
  descends through the layers that do not declare it.

  \<open>'v\<close> is the option's \<open>value_type\<close>; \<open>'d\<close> and \<open>'i\<close> are the types in which a default and
  an implicit value are stored (\<open>explicitly_convertible_to<value_type>\<close>, not necessarily
  \<open>value_type\<close> itself). \<open>Option<T>\<close> is given by what its template argument \<open>T\<close> fixes,
  namely the member name \<open>var\<close> of the struct that the macro \<open>clp_Opt(type, var)\<close> declares
  and the function \<open>parse_traits<value_type>::parse\<close>, and by the \<open>type_name\<close> that the
  macro passes to the constructor (\<open>#type\<close>).
\<close>

datatype ('v, 'd, 'i) Base =
    Option string string "string \<Rightarrow> 'v option"
  | WithCheck "('v, 'd, 'i) Base" "'v \<Rightarrow> bool" string
  | WithImplicitValue "('v, 'd, 'i) Base" 'i
  | WithDefaultValue "('v, 'd, 'i) Base" 'd
  | WithDescription "('v, 'd, 'i) Base" string
  | WithPattern "('v, 'd, 'i) Base" string
  | WithCustomParser "('v, 'd, 'i) Base" "string \<Rightarrow> 'v option"
  | WithCustomHint "('v, 'd, 'i) Base" string

text \<open>
  The struct \<open>OptionTypeImpl\<close> of \<open>clp_Opt\<close> has one member, named \<open>var\<close>, of the
  value type: a parse result is the member's name with its value, and \<open>_get\<close> reads the value.
\<close>

type_synonym 'v OptionTypeImpl = "string \<times> 'v"

definition OptionTypeImpl_get :: "'v OptionTypeImpl \<Rightarrow> 'v" where
  "OptionTypeImpl_get t = snd t"

text \<open>The member name of the result struct (the \<open>var\<close> of \<open>clp_Opt\<close>).\<close>

fun option_var :: "('v, 'd, 'i) Base \<Rightarrow> string" where
  "option_var (Option var type_name traits_parse) = var"
| "option_var (WithCheck base predicate error_message) = option_var base"
| "option_var (WithImplicitValue base implicit_value) = option_var base"
| "option_var (WithDefaultValue base default_value) = option_var base"
| "option_var (WithDescription base description) = option_var base"
| "option_var (WithPattern base pattern) = option_var base"
| "option_var (WithCustomParser base custom_parser) = option_var base"
| "option_var (WithCustomHint base custom_hint) = option_var base"

text \<open>
  The members \<open>implicit_value\<close>, \<open>default_value\<close> and \<open>description\<close>, found by name lookup
  from the outermost layer; \<open>None\<close> when no layer declares the member. The concepts
  \<open>HasImplicitValue\<close>, \<open>HasDefaultValue\<close> and \<open>HasDescription\<close> ask whether the member exists.
\<close>

fun implicit_value :: "('v, 'd, 'i) Base \<Rightarrow> 'i option" where
  "implicit_value (Option var type_name traits_parse) = None"
| "implicit_value (WithCheck base predicate error_message) = implicit_value base"
| "implicit_value (WithImplicitValue base implicit) = Some implicit"
| "implicit_value (WithDefaultValue base dflt) = implicit_value base"
| "implicit_value (WithDescription base descr) = implicit_value base"
| "implicit_value (WithPattern base pattern) = implicit_value base"
| "implicit_value (WithCustomParser base custom_parser) = implicit_value base"
| "implicit_value (WithCustomHint base custom_hint) = implicit_value base"

fun default_value :: "('v, 'd, 'i) Base \<Rightarrow> 'd option" where
  "default_value (Option var type_name traits_parse) = None"
| "default_value (WithCheck base predicate error_message) = default_value base"
| "default_value (WithImplicitValue base implicit) = default_value base"
| "default_value (WithDefaultValue base dflt) = Some dflt"
| "default_value (WithDescription base descr) = default_value base"
| "default_value (WithPattern base pattern) = default_value base"
| "default_value (WithCustomParser base custom_parser) = default_value base"
| "default_value (WithCustomHint base custom_hint) = default_value base"

fun description :: "('v, 'd, 'i) Base \<Rightarrow> string option" where
  "description (Option var type_name traits_parse) = None"
| "description (WithCheck base predicate error_message) = description base"
| "description (WithImplicitValue base implicit) = description base"
| "description (WithDefaultValue base dflt) = description base"
| "description (WithDescription base descr) = Some descr"
| "description (WithPattern base pattern) = description base"
| "description (WithCustomParser base custom_parser) = description base"
| "description (WithCustomHint base custom_hint) = description base"

definition HasImplicitValue :: "('v, 'd, 'i) Base \<Rightarrow> bool" where
  "HasImplicitValue option = (implicit_value option \<noteq> None)"

definition HasDefaultValue :: "('v, 'd, 'i) Base \<Rightarrow> bool" where
  "HasDefaultValue option = (default_value option \<noteq> None)"

definition HasDescription :: "('v, 'd, 'i) Base \<Rightarrow> bool" where
  "HasDescription option = (description option \<noteq> None)"

text \<open>The concepts \<open>Pattern\<close> (a member \<open>match\<close>) and \<open>HasValidationCheck\<close> (a member \<open>validate\<close>).\<close>

fun Pattern :: "('v, 'd, 'i) Base \<Rightarrow> bool" where
  "Pattern (Option var type_name traits_parse) = False"
| "Pattern (WithCheck base predicate error_message) = Pattern base"
| "Pattern (WithImplicitValue base implicit) = Pattern base"
| "Pattern (WithDefaultValue base dflt) = Pattern base"
| "Pattern (WithDescription base descr) = Pattern base"
| "Pattern (WithPattern base pattern) = True"
| "Pattern (WithCustomParser base custom_parser) = Pattern base"
| "Pattern (WithCustomHint base custom_hint) = Pattern base"

fun HasValidationCheck :: "('v, 'd, 'i) Base \<Rightarrow> bool" where
  "HasValidationCheck (Option var type_name traits_parse) = False"
| "HasValidationCheck (WithCheck base predicate error_message) = True"
| "HasValidationCheck (WithImplicitValue base implicit) = HasValidationCheck base"
| "HasValidationCheck (WithDefaultValue base dflt) = HasValidationCheck base"
| "HasValidationCheck (WithDescription base descr) = HasValidationCheck base"
| "HasValidationCheck (WithPattern base pattern) = HasValidationCheck base"
| "HasValidationCheck (WithCustomParser base custom_parser) = HasValidationCheck base"
| "HasValidationCheck (WithCustomHint base custom_hint) = HasValidationCheck base"

subsection \<open>\<open>WithPattern::match\<close>\<close>

definition starts_with :: "string \<Rightarrow> string \<Rightarrow> bool" where
  "starts_with text pattern = (take (length pattern) text = pattern)"

text \<open>
  The test of one layer's own pattern (lines 110 to 118). \<open>text[pattern.size()]\<close> is read
  only when \<open>text\<close> starts with \<open>pattern\<close> and is longer, so the index is in range.
\<close>

definition match_pattern :: "string \<Rightarrow> string \<Rightarrow> string option" where
  "match_pattern pattern text =
     (if starts_with text pattern then
        (if length text = length pattern then Some []
         else if text ! length pattern = CHR ''='' then Some (drop (length pattern + 1) text)
         else None)
      else None)"

text \<open>
  \<open>match\<close> asks the base first when the base is itself a \<open>Pattern\<close>. A tower with no
  \<open>WithPattern\<close> layer has no member \<open>match\<close> (the concept \<open>SingleOption\<close> rejects it); the
  equation for \<open>Option\<close> makes the function total and says that nothing matches.
\<close>

fun match :: "('v, 'd, 'i) Base \<Rightarrow> string \<Rightarrow> string option" where
  "match (Option var type_name traits_parse) text = None"
| "match (WithCheck base predicate error_message) text = match base text"
| "match (WithImplicitValue base implicit) text = match base text"
| "match (WithDefaultValue base dflt) text = match base text"
| "match (WithDescription base descr) text = match base text"
| "match (WithPattern base pattern) text =
     (case (if Pattern base then match base text else None) of
        Some matched \<Rightarrow> Some matched
      | None \<Rightarrow> match_pattern pattern text)"
| "match (WithCustomParser base custom_parser) text = match base text"
| "match (WithCustomHint base custom_hint) text = match base text"

text \<open>The patterns of a leaf in the order of their registration (\<open>opt["-w"]["--width"]\<close>).\<close>

fun patterns :: "('v, 'd, 'i) Base \<Rightarrow> string list" where
  "patterns (Option var type_name traits_parse) = []"
| "patterns (WithCheck base predicate error_message) = patterns base"
| "patterns (WithImplicitValue base implicit) = patterns base"
| "patterns (WithDefaultValue base dflt) = patterns base"
| "patterns (WithDescription base descr) = patterns base"
| "patterns (WithPattern base pattern) = patterns base @ [pattern]"
| "patterns (WithCustomParser base custom_parser) = patterns base"
| "patterns (WithCustomHint base custom_hint) = patterns base"

text \<open>
  The specification's wording of a successful match of a token against one pattern, and of
  the matched text it yields.
\<close>

definition accepts :: "string \<Rightarrow> string \<Rightarrow> bool" where
  "accepts token p =
     (starts_with token p \<and> (length token = length p \<or> token ! length p = CHR ''=''))"

definition matched_text :: "string \<Rightarrow> string \<Rightarrow> string" where
  "matched_text token p = (if length token = length p then [] else drop (length p + 1) token)"

subsection \<open>\<open>WithCheck::validate\<close>, \<open>parse_impl\<close> and \<open>hint_text\<close>\<close>

text \<open>
  \<open>WithCheck::validate\<close> asks the base's \<open>validate\<close> first when the base has one, then its
  own predicate on \<open>t._get()\<close>. \<open>OptionInterface::parse\<close> calls \<open>validate\<close> only under
  \<open>HasValidationCheck\<close>; the equation for \<open>Option\<close>, which has no such member, makes the
  function total.
\<close>

fun validate :: "('v, 'd, 'i) Base \<Rightarrow> 'v OptionTypeImpl \<Rightarrow> bool" where
  "validate (Option var type_name traits_parse) t = True"
| "validate (WithCheck base validation_predicate error_message) t =
     (if HasValidationCheck base \<and> \<not> validate base t then False
      else validation_predicate (OptionTypeImpl_get t))"
| "validate (WithImplicitValue base implicit) t = validate base t"
| "validate (WithDefaultValue base dflt) t = validate base t"
| "validate (WithDescription base descr) t = validate base t"
| "validate (WithPattern base pattern) t = validate base t"
| "validate (WithCustomParser base custom_parser) t = validate base t"
| "validate (WithCustomHint base custom_hint) t = validate base t"

text \<open>
  \<open>parse_impl\<close> is declared by \<open>Option\<close> (the value type's \<open>parse_traits\<close>) and by
  \<open>WithCustomParser\<close>; the outermost declaration hides the others.
\<close>

fun parse_impl :: "('v, 'd, 'i) Base \<Rightarrow> string \<Rightarrow> 'v OptionTypeImpl option" where
  "parse_impl (Option var type_name traits_parse) argument_text =
     (case traits_parse argument_text of
        Some value \<Rightarrow> Some (var, value)
      | None \<Rightarrow> None)"
| "parse_impl (WithCheck base predicate error_message) argument_text = parse_impl base argument_text"
| "parse_impl (WithImplicitValue base implicit) argument_text = parse_impl base argument_text"
| "parse_impl (WithDefaultValue base dflt) argument_text = parse_impl base argument_text"
| "parse_impl (WithDescription base descr) argument_text = parse_impl base argument_text"
| "parse_impl (WithPattern base pattern) argument_text = parse_impl base argument_text"
| "parse_impl (WithCustomParser base custom_parser) argument_text =
     (case custom_parser argument_text of
        Some value \<Rightarrow> Some (option_var base, value)
      | None \<Rightarrow> None)"
| "parse_impl (WithCustomHint base custom_hint) argument_text = parse_impl base argument_text"

fun hint_text :: "('v, 'd, 'i) Base \<Rightarrow> string" where
  "hint_text (Option var type_name traits_parse) = type_name"
| "hint_text (WithCheck base predicate error_message) = hint_text base"
| "hint_text (WithImplicitValue base implicit) = hint_text base"
| "hint_text (WithDefaultValue base dflt) = hint_text base"
| "hint_text (WithDescription base descr) = hint_text base"
| "hint_text (WithPattern base pattern) = hint_text base"
| "hint_text (WithCustomParser base custom_parser) = hint_text base"
| "hint_text (WithCustomHint base custom_hint) = custom_hint"

text \<open>
  \<open>patterns_to_string\<close>, a member of \<open>WithPattern\<close> only; the empty string stands for the
  missing member of a tower without patterns.
\<close>

fun patterns_to_string :: "('v, 'd, 'i) Base \<Rightarrow> string" where
  "patterns_to_string (Option var type_name traits_parse) = []"
| "patterns_to_string (WithCheck base predicate error_message) = patterns_to_string base"
| "patterns_to_string (WithImplicitValue base implicit) = patterns_to_string base"
| "patterns_to_string (WithDefaultValue base dflt) = patterns_to_string base"
| "patterns_to_string (WithDescription base descr) = patterns_to_string base"
| "patterns_to_string (WithPattern base pattern) =
     (let out = (if Pattern base then patterns_to_string base @ '', '' else [])
      in out @ pattern)"
| "patterns_to_string (WithCustomParser base custom_parser) = patterns_to_string base"
| "patterns_to_string (WithCustomHint base custom_hint) = patterns_to_string base"

subsection \<open>\<open>OptionInterface::parse\<close>\<close>

text \<open>
  \<open>make_parse_result\<close> converts a stored default or implicit value to the value type
  (\<open>ValueType(t)\<close>, the explicit conversion, a parameter here) and wraps it in the result
  struct.
\<close>

definition make_parse_result :: "string \<Rightarrow> ('t \<Rightarrow> 'v) \<Rightarrow> 't \<Rightarrow> 'v OptionTypeImpl" where
  "make_parse_result var ValueType t = (var, ValueType t)"

text \<open>Lines 23 to 29: conversion of the matched text, then the validation check.\<close>

definition parse_matched :: "('v, 'd, 'i) Base \<Rightarrow> string \<Rightarrow> 'v OptionTypeImpl option" where
  "parse_matched option matched =
     (let parse_result = parse_impl option matched
      in if HasValidationCheck option \<and> parse_result \<noteq> None \<and> \<not> validate option (the parse_result)
         then None
         else parse_result)"

text \<open>
  The loop over \<open>argv[0]\<close> to \<open>argv[argc - 1]\<close> is the recursion over the argument list; what
  follows the loop is the equation for the empty list. \<open>default_cast\<close> and \<open>implicit_cast\<close>
  are the explicit conversions of the stored default and implicit values to the value type.
\<close>

fun OptionInterface_parse ::
  "('d \<Rightarrow> 'v) \<Rightarrow> ('i \<Rightarrow> 'v) \<Rightarrow> ('v, 'd, 'i) Base \<Rightarrow> string list \<Rightarrow> 'v OptionTypeImpl option" where
  "OptionInterface_parse default_cast implicit_cast option [] =
     (if HasDefaultValue option
      then Some (make_parse_result (option_var option) default_cast (the (default_value option)))
      else None)"
| "OptionInterface_parse default_cast implicit_cast option (arg # argv) =
     (case match option arg of
        Some matched \<Rightarrow>
          (if HasImplicitValue option \<and> matched = []
           then Some (make_parse_result (option_var option) implicit_cast (the (implicit_value option)))
           else parse_matched option matched)
      | None \<Rightarrow> OptionInterface_parse default_cast implicit_cast option argv)"

subsection \<open>\<open>OptionInterface::to_string\<close>\<close>

text \<open>The two padding loops of \<open>to_string\<close>, and the line feed.\<close>

function pad_column :: "nat \<Rightarrow> string \<Rightarrow> string" where
  "pad_column column_width out =
     (if length out < column_width then pad_column column_width (out @ '' '') else out)"
  by pat_completeness auto
termination
  by (relation "measure (\<lambda>(column_width, out). column_width - length out)") auto

fun push_spaces :: "nat \<Rightarrow> string \<Rightarrow> string" where
  "push_spaces 0 out = out"
| "push_spaces (Suc i) out = push_spaces i (out @ '' '')"

definition newline :: char where
  "newline = CHR 0x0A"

definition column_width :: nat where
  "column_width = 40"

text \<open>
  \<open>to_string\<close> exists only under \<open>requires HasDescription<Base>\<close>: \<open>None\<close> is the call that
  does not compile. \<open>default_to_string\<close> and \<open>implicit_to_string\<close> are the global
  \<open>::to_string\<close> of the parse traits at the types of the stored default and implicit values.
\<close>

definition OptionInterface_to_string ::
  "('d \<Rightarrow> string) \<Rightarrow> ('i \<Rightarrow> string) \<Rightarrow> ('v, 'd, 'i) Base \<Rightarrow> string option" where
  "OptionInterface_to_string default_to_string implicit_to_string option =
     (if \<not> HasDescription option then None
      else Some
        (let out = patterns_to_string option;
             out = out @ '' <'';
             out = out @ hint_text option;
             out = out @ ''>'';
             out = pad_column column_width out;
             out = out @ the (description option);
             out = (if HasDefaultValue option
                    then push_spaces column_width (out @ [newline]) @ ''By default: ''
                           @ default_to_string (the (default_value option))
                    else out);
             out = (if HasImplicitValue option
                    then push_spaces column_width (out @ [newline]) @ ''Implicitly: ''
                           @ implicit_to_string (the (implicit_value option))
                    else out)
         in out @ [newline]))"

subsection \<open>The builder methods of \<open>OptionInterface\<close>\<close>

text \<open>
  Each method wraps the leaf in one more layer. A \<open>requires\<close> clause that fails makes the
  call ill-formed: the program that attaches the capability is rejected by the compiler,
  which is \<open>None\<close> here. \<open>op_call\<close> is \<open>operator ()\<close> and \<open>op_index\<close> is \<open>operator []\<close>.
\<close>

definition op_call :: "('v, 'd, 'i) Base \<Rightarrow> string \<Rightarrow> ('v, 'd, 'i) Base option" where
  "op_call option descr =
     (if \<not> HasDescription option then Some (WithDescription option descr) else None)"

definition op_index :: "('v, 'd, 'i) Base \<Rightarrow> string \<Rightarrow> ('v, 'd, 'i) Base option" where
  "op_index option pattern = Some (WithPattern option pattern)"

definition default_to :: "('v, 'd, 'i) Base \<Rightarrow> 'd \<Rightarrow> ('v, 'd, 'i) Base option" where
  "default_to option dflt =
     (if \<not> HasDefaultValue option then Some (WithDefaultValue option dflt) else None)"

definition implicitly :: "('v, 'd, 'i) Base \<Rightarrow> 'i \<Rightarrow> ('v, 'd, 'i) Base option" where
  "implicitly option implicit =
     (if \<not> HasImplicitValue option then Some (WithImplicitValue option implicit) else None)"

definition check :: "('v, 'd, 'i) Base \<Rightarrow> ('v \<Rightarrow> bool) \<Rightarrow> string \<Rightarrow> ('v, 'd, 'i) Base option" where
  "check option predicate error_message = Some (WithCheck option predicate error_message)"

definition custom_parser ::
  "('v, 'd, 'i) Base \<Rightarrow> (string \<Rightarrow> 'v option) \<Rightarrow> ('v, 'd, 'i) Base option" where
  "custom_parser option parser_function = Some (WithCustomParser option parser_function)"

definition hint :: "('v, 'd, 'i) Base \<Rightarrow> string \<Rightarrow> ('v, 'd, 'i) Base option" where
  "hint option custom_hint = Some (WithCustomHint option custom_hint)"

text \<open>\<open>clp_Flag(var)\<close> is \<open>clp_Opt(bool, var).default_to(false).implicitly(true)\<close>.\<close>

definition clp_Flag :: "string \<Rightarrow> (bool, bool, bool) Base" where
  "clp_Flag var =
     WithImplicitValue (WithDefaultValue (Option var ''bool'' parse_traits_bool_parse) False) True"

section \<open>Compound parsers\<close>

text \<open>
  \<open>Compound<Options...>\<close> derives from each of its options; it is the list of them in
  the order of the template arguments. Its \<open>parse_result_type\<close> derives from the result
  struct of every option and is the list of these structs, in the same order; a member of
  the aggregate is read by its name. The options of a C++ \<open>Compound\<close> have value types of
  their own; here they share the type \<open>'v\<close>, which stands for the sum of the value types
  involved, and every option brings the \<open>parse\<close> function of its own value type.
\<close>

type_synonym ('v, 'd, 'i) Compound = "('v, 'd, 'i) Base list"

type_synonym 'v Compound_parse_result = "'v OptionTypeImpl list"

definition get_member :: "'v Compound_parse_result \<Rightarrow> string \<Rightarrow> 'v option" where
  "get_member result var = map_of result var"

text \<open>
  The init-capture pack \<open>opts\<close> holds the result of \<open>parse(argc, argv)\<close> of every option;
  the body of the lambda tests \<open>(opts && ...)\<close> and moves every \<open>*opts\<close> into the aggregate.
\<close>

definition Compound_parse ::
  "('d \<Rightarrow> 'v) \<Rightarrow> ('i \<Rightarrow> 'v) \<Rightarrow> ('v, 'd, 'i) Compound \<Rightarrow> string list \<Rightarrow> 'v Compound_parse_result option" where
  "Compound_parse default_cast implicit_cast options argv =
     (let opts = map (\<lambda>option. OptionInterface_parse default_cast implicit_cast option argv) options
      in if \<not> list_all (\<lambda>opt. opt \<noteq> None) opts then None
         else Some (map the opts))"

text \<open>The four overloads of \<open>operator |\<close> that build a \<open>Compound\<close>.\<close>

definition or_Option_Option :: "('v, 'd, 'i) Base \<Rightarrow> ('v, 'd, 'i) Base \<Rightarrow> ('v, 'd, 'i) Compound" where
  "or_Option_Option a b = [a, b]"

definition or_Compound_Option :: "('v, 'd, 'i) Compound \<Rightarrow> ('v, 'd, 'i) Base \<Rightarrow> ('v, 'd, 'i) Compound" where
  "or_Compound_Option a b = a @ [b]"

definition or_Option_Compound :: "('v, 'd, 'i) Base \<Rightarrow> ('v, 'd, 'i) Compound \<Rightarrow> ('v, 'd, 'i) Compound" where
  "or_Option_Compound a b = a # b"

definition or_Compound_Compound :: "('v, 'd, 'i) Compound \<Rightarrow> ('v, 'd, 'i) Compound \<Rightarrow> ('v, 'd, 'i) Compound" where
  "or_Compound_Compound a b = a @ b"

section \<open>Commands and command selectors\<close>

text \<open>
  A \<open>Command<P>\<close> is a name and a parser \<open>P\<close>, of which only \<open>P::parse\<close> is used: the parser
  is the function from the argument list to its optional result.
\<close>

datatype 'r Command = Command (name: string) (parser: "string list \<Rightarrow> 'r option")

definition Command_match :: "'r Command \<Rightarrow> string \<Rightarrow> bool" where
  "Command_match c text = (text = name c)"

text \<open>\<open>parser.parse(argc - 1, argv + 1)\<close>: the argument list without its first element.\<close>

definition Command_parse :: "'r Command \<Rightarrow> string list \<Rightarrow> 'r option" where
  "Command_parse c argv = parser c (tl argv)"

text \<open>
  \<open>CommandSelector<Commands...>\<close> is the list of its commands. Its result is a
  \<open>std::variant\<close> with one alternative for each command, in their order: the index of the
  alternative and the value it holds.
\<close>

type_synonym 'r CommandSelector = "'r Command list"

type_synonym 'r variant = "nat \<times> 'r"

text \<open>
  \<open>detail::parse_impl<Next, Rest...>\<close>; \<open>i\<close> counts the commands already passed over, so
  that \<open>Next\<close> is the \<open>i\<close>-th command of the selector. It is called with \<open>argc > 0\<close> only,
  and with at least one command: the other cases make the function total.
\<close>

fun detail_parse_impl :: "nat \<Rightarrow> 'r Command list \<Rightarrow> string list \<Rightarrow> 'r variant option" where
  "detail_parse_impl i [] argv = None"
| "detail_parse_impl i (next # rest) [] = None"
| "detail_parse_impl i (next # rest) (argv0 # argv') =
     (if Command_match next argv0 then
        (case Command_parse next (argv0 # argv') of
           None \<Rightarrow> None
         | Some result \<Rightarrow> Some (i, result))
      else
        (if length rest > 0 then detail_parse_impl (Suc i) rest (argv0 # argv')
         else None))"

definition CommandSelector_parse :: "'r CommandSelector \<Rightarrow> string list \<Rightarrow> 'r variant option" where
  "CommandSelector_parse commands argv =
     (if length argv \<le> 0 then None
      else detail_parse_impl 0 commands argv)"

section \<open>Commands with shared options\<close>

record ('s, 'r) CommandWithSharedOptions =
  shared_options :: "string list \<Rightarrow> 's option"
  commands :: "'r CommandSelector"



section \<open>Example parsers\<close>

text \<open>
  The parsers of the README: \<open>clp_Opt(int, width)["-w"]["--width"]("Width of the window in
  pixels.")\<close> and its siblings, a width option with a validation check, a custom parser and
  a custom hint, and a selector in which two commands bear the same name.
\<close>

definition width_option :: "(int, int, int) Base" where
  "width_option =
     WithDescription
       (WithPattern
          (WithPattern (Option ''width'' ''int'' (charconv_to_string_parse_traits_parse int32_t)) ''-w'')
          ''--width'')
       ''Width of the window in pixels.''"

definition height_option :: "(int, int, int) Base" where
  "height_option =
     WithDescription
       (WithPattern
          (WithPattern (Option ''height'' ''int'' (charconv_to_string_parse_traits_parse int32_t)) ''-h'')
          ''--height'')
       ''Height of the window in pixels.''"

definition fullscreen_flag :: "(bool, bool, bool) Base" where
  "fullscreen_flag =
     WithDescription (WithPattern (clp_Flag ''fullscreen'') ''--fullscreen'')
       ''Start the application in fullscreen mode.''"

definition dry_run_flag :: "(bool, bool, bool) Base" where
  "dry_run_flag = WithPattern (clp_Flag ''dry_run'') ''--dry-run''"

definition tuned_width_option :: "(int, int, int) Base" where
  "tuned_width_option =
     WithCustomHint
       (WithCustomParser
          (WithCheck width_option (\<lambda>width. 0 < width) ''Width must be positive.'')
          (charconv_to_string_parse_traits_parse int16_t))
       ''pixels''"

definition window_commands :: "(int Compound_parse_result) CommandSelector" where
  "window_commands =
     [Command ''open-window'' (Compound_parse id id (or_Option_Option width_option height_option)),
      Command ''resize'' (Compound_parse id id [width_option]),
      Command ''open-window'' (\<lambda>argv. None)]"

section \<open>Evaluation of the examples\<close>

lemmas leaf_eval =
  width_option_def height_option_def fullscreen_flag_def dry_run_flag_def clp_Flag_def
  match_pattern_def starts_with_def parse_matched_def make_parse_result_def
  HasImplicitValue_def HasDefaultValue_def HasDescription_def
  charconv_to_string_parse_traits_parse_def from_chars_def Let_def is_digit_def
  digits_value_def digit_value_def representable_def parse_traits_bool_parse_def




section \<open>Integer conversion\<close>

lemma length_takeWhile_all: "length (takeWhile P xs) = length xs \<longleftrightarrow> list_all P xs"
proof (induction xs)
  case (Cons x xs)
  have "length (takeWhile P xs) \<le> length xs" by (rule length_takeWhile_le)
  with Cons show ?case by auto
qed simp

lemma takeWhile_all: "list_all P xs \<Longrightarrow> takeWhile P xs = xs"
  by (induction xs) auto

lemma minus_not_digit: "\<not> is_digit (CHR ''-'')"
  by (simp add: is_digit_def)

lemma charconv_parse_unsigned_form:
  assumes "\<not> (is_signed T \<and> text \<noteq> [] \<and> hd text = CHR ''-'')"
  shows "charconv_to_string_parse_traits_parse T text =
     (if text \<noteq> [] \<and> list_all is_digit text \<and> representable T (int (digits_value text))
      then Some (int (digits_value text)) else None)"
proof (cases "list_all is_digit text")
  case True
  then have tw: "takeWhile is_digit text = text" by (rule takeWhile_all)
  from assms have m: "(is_signed T \<and> text \<noteq> [] \<and> hd text = CHR ''-'') = False" by simp
  from True show ?thesis
    unfolding charconv_to_string_parse_traits_parse_def from_chars_def Let_def m
    by (simp add: tw)
next
  case False
  then have len: "length (takeWhile is_digit text) \<noteq> length text"
    by (simp add: length_takeWhile_all)
  from assms have m: "(is_signed T \<and> text \<noteq> [] \<and> hd text = CHR ''-'') = False" by simp
  from False len show ?thesis
    unfolding charconv_to_string_parse_traits_parse_def from_chars_def Let_def m
    by simp
qed

lemma charconv_parse_signed_form:
  assumes "is_signed T"
  shows "charconv_to_string_parse_traits_parse T (CHR ''-'' # cs) =
     (if cs \<noteq> [] \<and> list_all is_digit cs \<and> representable T (- int (digits_value cs))
      then Some (- int (digits_value cs)) else None)"
proof (cases "list_all is_digit cs")
  case True
  then have tw: "takeWhile is_digit cs = cs" by (rule takeWhile_all)
  from assms True show ?thesis
    by (simp add: charconv_to_string_parse_traits_parse_def from_chars_def Let_def tw)
next
  case False
  then have "length (takeWhile is_digit cs) \<noteq> length cs"
    by (simp add: length_takeWhile_all)
  with assms False show ?thesis
    by (simp add: charconv_to_string_parse_traits_parse_def from_chars_def Let_def)
qed

lemma charconv_parse_numeral:
  "charconv_to_string_parse_traits_parse T text =
     (if decimal_numeral T text \<and> representable T (numeral_value text)
      then Some (numeral_value text) else None)"
proof (cases "is_signed T \<and> text \<noteq> [] \<and> hd text = CHR ''-''")
  case True
  then obtain cs where t: "text = CHR ''-'' # cs" by (cases "text") auto
  from True have "is_signed T" by simp
  then show ?thesis
    unfolding t by (simp add: charconv_parse_signed_form decimal_numeral_def numeral_value_def)
next
  case False
  have "decimal_numeral T text \<longleftrightarrow> text \<noteq> [] \<and> list_all is_digit text"
    using False by (cases "text") (auto simp: decimal_numeral_def minus_not_digit)
  moreover have "decimal_numeral T text \<Longrightarrow> numeral_value text = int (digits_value text)"
    using False by (cases "text") (auto simp: decimal_numeral_def numeral_value_def)
  ultimately show ?thesis
    using charconv_parse_unsigned_form [OF False] by auto
qed

lemma charconv_parse_from_chars:
  "charconv_to_string_parse_traits_parse T text \<noteq> None \<longleftrightarrow>
     ec (fst (from_chars T text)) = errc_none \<and> ptr (fst (from_chars T text)) = length text"
  by (simp add: charconv_to_string_parse_traits_parse_def from_chars_def Let_def)

lemma decimal_numeral_no_garbage:
  "\<not> is_digit c \<Longrightarrow> pre \<noteq> [] \<or> c \<noteq> CHR ''-'' \<Longrightarrow> \<not> decimal_numeral T (pre @ c # post)"
  by (cases pre) (auto simp: decimal_numeral_def)

text \<open>
  Claim C10, as the specification states it, fails: \<open>std::from_chars\<close> consumes the whole of
  \<open>99999\<close>, so that \<open>ptr\<close> is the end of the text, and yet the conversion to \<open>int16_t\<close>
  fails, because \<open>ec\<close> is \<open>result_out_of_range\<close>.
\<close>

theorem integer_parse_consumed_but_failed:
  "ptr (fst (from_chars int16_t ''99999'')) = length ''99999''
   \<and> charconv_to_string_parse_traits_parse int16_t ''99999'' = None"
  by (simp add: leaf_eval)

text \<open>
  Claim C10, amended. The conversion of a text to an integer type succeeds exactly when
  \<open>std::from_chars\<close> reports no error and consumes the entire text, which is to say when
  the text as a whole is a decimal numeral of the type (a minus sign for the signed types
  only, then at least one digit) whose value the type represents; the result is that value.
  A character that is neither a digit nor a leading minus sign, anywhere in the text,
  makes the conversion fail: no value of a prefix is returned.
\<close>

theorem integer_parse_whole_numeral:
  "charconv_to_string_parse_traits_parse T text =
     (if decimal_numeral T text \<and> representable T (numeral_value text)
      then Some (numeral_value text) else None)
   \<and> (charconv_to_string_parse_traits_parse T text \<noteq> None \<longleftrightarrow>
        ec (fst (from_chars T text)) = errc_none \<and> ptr (fst (from_chars T text)) = length text)
   \<and> (\<not> is_digit c \<and> (pre \<noteq> [] \<or> c \<noteq> CHR ''-'') \<longrightarrow>
        charconv_to_string_parse_traits_parse T (pre @ c # post) = None)"
  using charconv_parse_from_chars [of T "text"] decimal_numeral_no_garbage [of c pre T post]
  by (auto simp: charconv_parse_numeral)

theorem integer_parse_whole_numeral_witness:
  "charconv_to_string_parse_traits_parse int32_t ''1920'' = Some 1920
   \<and> charconv_to_string_parse_traits_parse int32_t ''12abc'' = None
   \<and> charconv_to_string_parse_traits_parse int32_t ''12 '' = None"
  using integer_parse_whole_numeral [of int32_t "''1920''" "CHR ''a''" "''12''" "''bc''"]
        integer_parse_whole_numeral [of int32_t "''1920''" "CHR '' ''" "''12''" "''''"]
  by (simp add: leaf_eval decimal_numeral_def numeral_value_def)

section \<open>Matching\<close>

lemma match_pattern_accepts:
  "match_pattern p token = (if accepts token p then Some (matched_text token p) else None)"
  by (simp add: match_pattern_def accepts_def matched_text_def)

lemma starts_with_append: "starts_with token p \<longleftrightarrow> (\<exists>rest. token = p @ rest)"
proof
  assume "starts_with token p"
  then have "token = p @ drop (length p) token"
    unfolding starts_with_def by (metis append_take_drop_id)
  then show "\<exists>rest. token = p @ rest" ..
next
  assume "\<exists>rest. token = p @ rest"
  then show "starts_with token p" by (auto simp: starts_with_def)
qed

lemma match_pattern_forms:
  "match_pattern p token = Some matched \<longleftrightarrow>
     (token = p \<and> matched = []) \<or> token = p @ CHR ''='' # matched"
proof (cases "starts_with token p")
  case True
  then obtain rest where t: "token = p @ rest" by (auto simp: starts_with_append)
  show ?thesis
    unfolding t by (cases rest) (auto simp: match_pattern_def starts_with_def nth_append)
next
  case False
  then have "token \<noteq> p" "token \<noteq> p @ CHR ''='' # matched"
    by (auto simp: starts_with_def)
  with False show ?thesis by (simp add: match_pattern_def)
qed

lemma accepts_forms:
  "accepts token p \<and> matched_text token p = matched \<longleftrightarrow>
     (token = p \<and> matched = []) \<or> token = p @ CHR ''='' # matched"
  using match_pattern_forms [of p token matched]
  by (auto simp: match_pattern_accepts split: if_splits)

lemma match_no_pattern: "\<not> Pattern b \<Longrightarrow> match b token = None"
  by (induction b) simp_all

lemma find_snoc:
  "find P (xs @ [x]) =
     (case find P xs of None \<Rightarrow> (if P x then Some x else None) | Some y \<Rightarrow> Some y)"
  by (induction xs) simp_all

lemma match_find:
  "match b token =
     (case find (accepts token) (patterns b) of
        None \<Rightarrow> None
      | Some p \<Rightarrow> Some (matched_text token p))"
proof (induction b)
  case (WithPattern b p)
  have base: "(if Pattern b then match b token else None) = match b token"
    by (simp add: match_no_pattern)
  show ?case
    by (simp add: base WithPattern.IH find_snoc match_pattern_accepts split: option.splits)
qed simp_all

text \<open>
  Claim C3. \<open>match\<close> of a leaf returns what the first of its patterns, in the order of
  registration, that accepts the token yields: a pattern accepts a token that starts with
  it and either has the pattern's length, which yields the empty text, or has the
  character \<open>=\<close> right after the pattern, which yields the rest of the token after that
  character. It succeeds exactly when some registered pattern accepts the token. In other
  words, a pattern \<open>p\<close> accepts the token \<open>p\<close> itself, with the empty text, and the tokens
  \<open>p=text\<close>, with \<open>text\<close>, and no others.
\<close>

theorem match_first_accepting_pattern:
  "match b token =
     (case find (accepts token) (patterns b) of
        None \<Rightarrow> None
      | Some p \<Rightarrow> Some (matched_text token p))
   \<and> ((\<exists>matched. match b token = Some matched) \<longleftrightarrow> (\<exists>p \<in> set (patterns b). accepts token p))
   \<and> (accepts token q \<and> matched_text token q = text \<longleftrightarrow>
        (token = q \<and> text = []) \<or> token = q @ CHR ''='' # text)"
proof -
  have "(\<exists>matched. match b token = Some matched) \<longleftrightarrow> find (accepts token) (patterns b) \<noteq> None"
    by (simp add: match_find split: option.splits)
  then have "(\<exists>matched. match b token = Some matched) \<longleftrightarrow> (\<exists>p \<in> set (patterns b). accepts token p)"
    by (auto simp add: find_None_iff)
  with match_find [of b token] accepts_forms [of token q "text"] show ?thesis
    by blast
qed

theorem match_first_accepting_pattern_witness:
  "match width_option ''--width=1920'' = Some ''1920''
   \<and> patterns width_option = [''-w'', ''--width'']
   \<and> (\<exists>p \<in> set [''-w'', ''--width'']. accepts ''--width=1920'' p)"
  using match_first_accepting_pattern [of width_option "''--width=1920''" "''--width''" "''1920''"]
  by (simp add: width_option_def accepts_def matched_text_def starts_with_def)

section \<open>Parsing one option\<close>

lemma parse_impl_var: "parse_impl option argument_text = Some r \<Longrightarrow> fst r = option_var option"
  by (induction option) (auto split: option.splits)

lemma parse_matched_var: "parse_matched option matched = Some r \<Longrightarrow> fst r = option_var option"
  by (auto simp: parse_matched_def Let_def parse_impl_var split: if_splits)


text \<open>The loop of \<open>OptionInterface::parse\<close> decides on the first token that matches.\<close>

lemma parse_find:
  "OptionInterface_parse dc ic option argv =
     (case find (\<lambda>arg. match option arg \<noteq> None) argv of
        None \<Rightarrow>
          (if HasDefaultValue option
           then Some (make_parse_result (option_var option) dc (the (default_value option)))
           else None)
      | Some token \<Rightarrow>
          (if HasImplicitValue option \<and> match option token = Some []
           then Some (make_parse_result (option_var option) ic (the (implicit_value option)))
           else parse_matched option (the (match option token))))"
  by (induction argv) (auto split: option.splits)



lemma parse_var: "OptionInterface_parse dc ic option argv = Some r \<Longrightarrow> fst r = option_var option"
  by (induction argv) (auto simp: make_parse_result_def parse_matched_var split: option.splits if_splits)

text \<open>
  Claim C4. For a leaf with the implicit value \<open>i\<close>: when the first token of the argument
  list that matches yields the empty matched text, \<open>parse\<close> returns \<open>i\<close> (converted to the
  value type). Neither the converter nor a validator is asked, and a default value plays no
  part: the result is the same under a default \<open>d\<close>, a check \<open>p\<close> and a custom parser
  \<open>f\<close>, whatever they are.
\<close>

theorem implicit_value_returned_at_once:
  assumes "implicit_value option = Some i"
    and "find (\<lambda>arg. match option arg \<noteq> None) argv = Some token"
    and "match option token = Some []"
  shows "OptionInterface_parse dc ic option argv = Some (option_var option, ic i)
    \<and> OptionInterface_parse dc ic (WithCustomParser (WithCheck (WithDefaultValue option d) p msg) f) argv
        = Some (option_var option, ic i)"
proof -
  let ?w = "WithCustomParser (WithCheck (WithDefaultValue option d) p msg) f"
  have "OptionInterface_parse dc ic option argv = Some (option_var option, ic i)"
    using assms by (simp add: parse_find HasImplicitValue_def make_parse_result_def)
  moreover have "OptionInterface_parse dc ic ?w argv = Some (option_var option, ic i)"
    using assms by (simp add: parse_find HasImplicitValue_def make_parse_result_def)
  ultimately show ?thesis by simp
qed

theorem implicit_value_returned_at_once_witness:
  "OptionInterface_parse id id fullscreen_flag [''-w=1920'', ''--fullscreen''] = Some (''fullscreen'', True)
   \<and> OptionInterface_parse id id
        (WithCustomParser (WithCheck (WithDefaultValue fullscreen_flag False) (\<lambda>value. False) ''rejected'')
           (\<lambda>argument_text. None))
        [''-w=1920'', ''--fullscreen''] = Some (''fullscreen'', True)"
proof -
  have h1: "implicit_value fullscreen_flag = Some True"
    by (simp add: leaf_eval)
  have h2: "find (\<lambda>arg. match fullscreen_flag arg \<noteq> None) [''-w=1920'', ''--fullscreen'']
      = Some ''--fullscreen''"
    by (simp add: leaf_eval)
  have h3: "match fullscreen_flag ''--fullscreen'' = Some []"
    by (simp add: leaf_eval)
  show ?thesis
    using implicit_value_returned_at_once
      [OF h1 h2 h3, of id id False "\<lambda>value. False" "''rejected''" "\<lambda>argument_text. None"]
    by (simp add: leaf_eval)
qed




section \<open>Compound parsers\<close>

text \<open>
  Claim C1. \<open>Compound::parse\<close> parses every option on the full argument list. It succeeds
  exactly when every option's \<open>parse\<close> succeeds, and its result then holds the result of
  every option, in their order; it fails as a whole as soon as one option fails.
\<close>

theorem compound_all_or_nothing:
  "(Compound_parse dc ic options argv \<noteq> None \<longleftrightarrow>
      (\<forall>option \<in> set options. OptionInterface_parse dc ic option argv \<noteq> None))
   \<and> (\<forall>result. Compound_parse dc ic options argv = Some result \<longrightarrow>
        map Some result = map (\<lambda>option. OptionInterface_parse dc ic option argv) options)
   \<and> ((\<exists>option \<in> set options. OptionInterface_parse dc ic option argv' = None) \<longrightarrow>
        Compound_parse dc ic options argv' = None)"
  unfolding Compound_parse_def Let_def
  by (auto simp: list_all_iff intro!: nth_equalityI)

theorem compound_all_or_nothing_witness:
  "Compound_parse id id [width_option, height_option] [''-w=1920'', ''-h=1080'']
     = Some [(''width'', 1920), (''height'', 1080)]
   \<and> Compound_parse id id [width_option, height_option] [''-w=1920''] = None"
  using compound_all_or_nothing
    [of id id "[width_option, height_option]" "[''-w=1920'', ''-h=1080'']" "[''-w=1920'']"]
  by (simp add: leaf_eval Compound_parse_def)

text \<open>
  Claim C7. Two leaves whose result members have different names, each of which parses
  the argument list with success, compose into a \<open>Compound\<close> that parses it with success;
  the result holds both members with the values the leaves return, in either order of
  composition.
\<close>

theorem compound_members_in_either_order:
  assumes "option_var a \<noteq> option_var b"
    and "OptionInterface_parse dc ic a argv = Some r1"
    and "OptionInterface_parse dc ic b argv = Some r2"
  shows "\<exists>ab ba.
      Compound_parse dc ic (or_Option_Option a b) argv = Some ab
    \<and> Compound_parse dc ic (or_Option_Option b a) argv = Some ba
    \<and> get_member ab (option_var a) = Some (OptionTypeImpl_get r1)
    \<and> get_member ab (option_var b) = Some (OptionTypeImpl_get r2)
    \<and> get_member ba (option_var a) = Some (OptionTypeImpl_get r1)
    \<and> get_member ba (option_var b) = Some (OptionTypeImpl_get r2)"
proof -
  from assms(2) have f1: "fst r1 = option_var a" by (rule parse_var)
  from assms(3) have f2: "fst r2 = option_var b" by (rule parse_var)
  have ab: "Compound_parse dc ic (or_Option_Option a b) argv = Some [r1, r2]"
    using assms(2,3) by (simp add: Compound_parse_def or_Option_Option_def)
  have ba: "Compound_parse dc ic (or_Option_Option b a) argv = Some [r2, r1]"
    using assms(2,3) by (simp add: Compound_parse_def or_Option_Option_def)
  obtain x1 v1 where r1: "r1 = (x1, v1)" by (cases r1)
  obtain x2 v2 where r2: "r2 = (x2, v2)" by (cases r2)
  show ?thesis
    using ab ba f1 f2 assms(1) unfolding r1 r2
    by (auto simp: get_member_def OptionTypeImpl_get_def)
qed

theorem compound_members_in_either_order_witness:
  "\<exists>ab ba.
      Compound_parse id id (or_Option_Option width_option height_option) [''-h=1080'', ''-w=1920''] = Some ab
    \<and> Compound_parse id id (or_Option_Option height_option width_option) [''-h=1080'', ''-w=1920''] = Some ba
    \<and> get_member ab (option_var width_option) = Some (OptionTypeImpl_get (''width'', 1920))
    \<and> get_member ab (option_var height_option) = Some (OptionTypeImpl_get (''height'', 1080))
    \<and> get_member ba (option_var width_option) = Some (OptionTypeImpl_get (''width'', 1920))
    \<and> get_member ba (option_var height_option) = Some (OptionTypeImpl_get (''height'', 1080))"
proof -
  have h1: "option_var width_option \<noteq> option_var height_option"
    by (simp add: leaf_eval)
  have h2: "OptionInterface_parse id id width_option [''-h=1080'', ''-w=1920''] = Some (''width'', 1920)"
    by (simp add: leaf_eval)
  have h3: "OptionInterface_parse id id height_option [''-h=1080'', ''-w=1920''] = Some (''height'', 1080)"
    by (simp add: leaf_eval)
  show ?thesis
    by (rule compound_members_in_either_order [OF h1 h2 h3])
qed

section \<open>Command selection\<close>

lemma detail_parse_impl_no_match:
  "\<forall>c \<in> set selector. name c \<noteq> token \<Longrightarrow> detail_parse_impl i selector (token # rest) = None"
  by (induction selector arbitrary: i) (auto simp: Command_match_def)

lemma detail_parse_impl_first_match:
  "k < length selector \<Longrightarrow> name (selector ! k) = token \<Longrightarrow> \<forall>j < k. name (selector ! j) \<noteq> token \<Longrightarrow>
   detail_parse_impl i selector (token # rest) = map_option (Pair (i + k)) (parser (selector ! k) rest)"
proof (induction selector arbitrary: i k)
  case Nil
  then show ?case by simp
next
  case (Cons c selector)
  show ?case
  proof (cases k)
    case 0
    with Cons.prems show ?thesis
      by (simp add: Command_match_def Command_parse_def split: option.splits)
  next
    case (Suc k')
    with Cons.prems have c: "name c \<noteq> token" by auto
    from Suc Cons.prems have k': "k' < length selector" "name (selector ! k') = token"
      "\<forall>j < k'. name (selector ! j) \<noteq> token" by auto
    from k'(1) have ne: "length selector > 0" by (cases selector) simp_all
    show ?thesis
      using Cons.IH [OF k', of "Suc i"] c ne Suc by (simp add: Command_match_def)
  qed
qed

text \<open>
  Claim C2. \<open>CommandSelector::parse\<close> fails on the empty argument list. On a list with the
  first token \<open>token\<close> it fails when no command bears that name; otherwise the command
  selected is the first one, in the order of registration, whose name is the token (the
  \<open>k\<close>-th, no command before it having that name), its parser is run on the tokens after
  the first, and the result is that parser's result in the \<open>k\<close>-th alternative of the
  variant, or a failure when that parser fails.
\<close>

theorem selector_first_command_by_name:
  "CommandSelector_parse selector [] = None
   \<and> ((\<forall>c \<in> set selector. name c \<noteq> token') \<longrightarrow>
        CommandSelector_parse selector (token' # rest') = None)
   \<and> (k < length selector \<and> name (selector ! k) = token \<and> (\<forall>j < k. name (selector ! j) \<noteq> token) \<longrightarrow>
        CommandSelector_parse selector (token # rest) =
          (case parser (selector ! k) rest of None \<Rightarrow> None | Some result \<Rightarrow> Some (k, result)))"
  using detail_parse_impl_no_match [of selector token' 0 rest']
    detail_parse_impl_first_match [of k selector token 0 rest]
  by (auto simp: CommandSelector_parse_def split: option.splits)

theorem selector_first_command_by_name_witness:
  "CommandSelector_parse window_commands [''open-window'', ''-w=800'', ''-h=600'']
     = Some (0, [(''width'', 800), (''height'', 600)])
   \<and> CommandSelector_parse window_commands [''help'', ''-w=800''] = None
   \<and> CommandSelector_parse window_commands [] = None"
  using selector_first_command_by_name
    [of window_commands "''help''" "[''-w=800'']" 0 "''open-window''" "[''-w=800'', ''-h=600'']"]
  by (simp add: window_commands_def leaf_eval Compound_parse_def or_Option_Option_def)

section \<open>Commands with shared options\<close>







section \<open>Help text\<close>

lemma pad_column_replicate:
  "pad_column w out = out @ replicate (w - length out) (CHR '' '')"
proof (induction w out rule: pad_column.induct)
  case (1 w out)
  show ?case
  proof (cases "length out < w")
    case True
    then have "w - length out = Suc (w - Suc (length out))" by simp
    with True 1 show ?thesis
      by (simp add: replicate_app_Cons_same del: pad_column.simps add: pad_column.simps [of w out])
  next
    case False
    then show ?thesis by simp
  qed
qed

lemma push_spaces_replicate: "push_spaces n out = out @ replicate n (CHR '' '')"
  by (induction n arbitrary: out) (simp_all add: replicate_app_Cons_same)

text \<open>
  Claim C8. The help text of a leaf with a description is its first line (the patterns
  and the hint, padded with spaces to the column, then the description), then, when the
  leaf has a default value, a line of \<open>column_width\<close> spaces, \<open>By default: \<close> and exactly
  the \<open>to_string\<close> of the stored default value, then, when it has an implicit value, a line
  of \<open>column_width\<close> spaces, \<open>Implicitly: \<close> and exactly the \<open>to_string\<close> of the stored
  implicit value, then a line feed.
\<close>

theorem help_text_value_lines:
  assumes "description option = Some descr"
  shows "OptionInterface_to_string default_to_string implicit_to_string option = Some (
      (let head = patterns_to_string option @ '' <'' @ hint_text option @ ''>''
       in head @ replicate (column_width - length head) (CHR '' '') @ descr)
      @ (case default_value option of
           None \<Rightarrow> []
         | Some d \<Rightarrow> newline # replicate column_width (CHR '' '') @ ''By default: '' @ default_to_string d)
      @ (case implicit_value option of
           None \<Rightarrow> []
         | Some i \<Rightarrow> newline # replicate column_width (CHR '' '') @ ''Implicitly: '' @ implicit_to_string i)
      @ [newline])"
  using assms
  by (simp add: OptionInterface_to_string_def HasDescription_def HasDefaultValue_def HasImplicitValue_def
      Let_def pad_column_replicate push_spaces_replicate del: pad_column.simps split: option.splits)

theorem help_text_value_lines_witness:
  "OptionInterface_to_string parse_traits_bool_to_string parse_traits_bool_to_string fullscreen_flag =
     Some (''--fullscreen <bool>'' @ replicate 21 (CHR '' '') @ ''Start the application in fullscreen mode.''
       @ [newline] @ replicate 40 (CHR '' '') @ ''By default: false''
       @ [newline] @ replicate 40 (CHR '' '') @ ''Implicitly: true''
       @ [newline])"
proof -
  have h: "description fullscreen_flag = Some ''Start the application in fullscreen mode.''"
    by (simp add: leaf_eval)
  show ?thesis
    using help_text_value_lines [OF h, of parse_traits_bool_to_string parse_traits_bool_to_string]
    by (simp add: leaf_eval column_width_def parse_traits_bool_to_string_def)
qed

section \<open>Attaching a capability twice\<close>

text \<open>
  Claim C9, as the specification states it, fails for four of the seven capabilities.
  \<open>tuned_width_option\<close> has patterns, a validation check, a custom parser (which refuses
  \<open>40000\<close>) and a custom hint, and \<open>operator []\<close>, \<open>check\<close>, \<open>custom_parser\<close> and \<open>hint\<close>
  accept it all the same: none of them has a \<open>requires\<close> clause.
\<close>

theorem capability_attached_again:
  "Pattern tuned_width_option \<and> HasValidationCheck tuned_width_option
   \<and> hint_text tuned_width_option = ''pixels''
   \<and> parse_impl tuned_width_option ''40000'' = None
   \<and> op_index tuned_width_option ''--w'' \<noteq> None
   \<and> check tuned_width_option (\<lambda>width. width \<le> 3840) ''Width must be at most 3840 (4k).'' \<noteq> None
   \<and> custom_parser tuned_width_option (charconv_to_string_parse_traits_parse int32_t) \<noteq> None
   \<and> hint tuned_width_option ''px'' \<noteq> None"
  by (simp add: tuned_width_option_def leaf_eval op_index_def check_def custom_parser_def hint_def)

text \<open>
  Claim C9, amended. A description, a default value and an implicit value can each be
  attached once: on a leaf that has one already, in whatever layer, \<open>operator ()\<close>,
  \<open>default_to\<close> and \<open>implicitly\<close> are rejected when the parser is composed. A pattern, a
  validation check, a custom parser and a custom hint can be attached to any leaf, also to
  one that has one already: a further pattern is registered after the others, and a further
  check holds when the checks of the base and its own predicate hold.
\<close>

theorem capability_attached_once:
  "(HasDescription option \<longrightarrow> op_call option descr = None)
   \<and> (HasDefaultValue option \<longrightarrow> default_to option d = None)
   \<and> (HasImplicitValue option \<longrightarrow> implicitly option i = None)
   \<and> op_index option pattern = Some (WithPattern option pattern)
   \<and> check option predicate error_message = Some (WithCheck option predicate error_message)
   \<and> custom_parser option parser_function = Some (WithCustomParser option parser_function)
   \<and> hint option custom_hint = Some (WithCustomHint option custom_hint)
   \<and> patterns (WithPattern option pattern) = patterns option @ [pattern]
   \<and> (HasValidationCheck checked \<longrightarrow>
        validate (WithCheck checked q message) t = (validate checked t \<and> q (OptionTypeImpl_get t)))"
  by (simp add: op_call_def default_to_def implicitly_def op_index_def check_def custom_parser_def hint_def)

theorem capability_attached_once_witness:
  "HasDescription fullscreen_flag \<and> op_call fullscreen_flag ''Full screen.'' = None
   \<and> HasDefaultValue fullscreen_flag \<and> default_to fullscreen_flag True = None
   \<and> HasImplicitValue fullscreen_flag \<and> implicitly fullscreen_flag False = None
   \<and> HasValidationCheck tuned_width_option
   \<and> validate (WithCheck tuned_width_option (\<lambda>width. width \<le> 3840) ''Width must be at most 3840 (4k).'')
         (''width'', 1920)
   \<and> \<not> validate (WithCheck tuned_width_option (\<lambda>width. width \<le> 3840) ''Width must be at most 3840 (4k).'')
         (''width'', 0)"
  using capability_attached_once
      [of fullscreen_flag "''Full screen.''" True False _ _ _ _ _ tuned_width_option
          "\<lambda>width. width \<le> 3840" "''Width must be at most 3840 (4k).''" "(''width'', 1920)"]
    capability_attached_once
      [of fullscreen_flag "''Full screen.''" True False _ _ _ _ _ tuned_width_option
          "\<lambda>width. width \<le> 3840" "''Width must be at most 3840 (4k).''" "(''width'', 0)"]
  by (simp add: leaf_eval tuned_width_option_def OptionTypeImpl_get_def)

end
